theory Spec2Isabelle
  imports Complex_Main "HOL-Library.Word" "HOL-Library.Log_Nat"
begin

unbundle bit_operations_syntax

section \<open>Python values and binary64 arithmetic\<close>

text \<open>
  The component \<^verbatim>\<open>custom_components/GeekwormUPS/sensor.py\<close> stores values of several
  Python types in the same attribute (\<^verbatim>\<open>None\<close>, \<^verbatim>\<open>False\<close>, a float, a tuple), and
  its control flow depends on their truth value, so attributes hold a \<open>pyval\<close>.
  A Python float is an IEEE binary64 number; it is represented by the rational number it
  denotes. Every float of this program lies in \<open>[0, 2 ^ 17)\<close>, so infinities and NaN do
  not occur and are not represented.
\<close>

datatype error = IOError | RuntimeError | TypeError | KeyError | StructError

datatype pyval =
    PyNone
  | PyBool bool
  | PyInt int
  | PyFloat rat
  | PyTuple "pyval list"

text \<open>\<^verbatim>\<open>bool(x)\<close>, the test behind \<^verbatim>\<open>if x\<close> and \<^verbatim>\<open>not x\<close>.\<close>

fun truthy :: "pyval \<Rightarrow> bool" where
  "truthy PyNone = False"
| "truthy (PyBool b) = b"
| "truthy (PyInt i) = (i \<noteq> 0)"
| "truthy (PyFloat x) = (x \<noteq> 0)"
| "truthy (PyTuple xs) = (xs \<noteq> [])"

text \<open>Rounding to the nearest integer, ties to the even one.\<close>

definition round_half_even :: "rat \<Rightarrow> int" where
  "round_half_even x =
     (let f = \<lfloor>x\<rfloor>; d = x - of_int f
      in if d < 1 / 2 then f
         else if 1 / 2 < d then f + 1
         else if even f then f else f + 1)"

text \<open>
  The binary64 number nearest to a rational (ties to even): a 53-bit significand
  scaled by a power of two, with the subnormal spacing \<open>2 powi - 1074\<close> as the finest one.
  The result of each float operation of Python is the exact result rounded this way.
\<close>

definition binary64 :: "rat \<Rightarrow> rat" where
  "binary64 x =
     (if x = 0 then 0
      else let (p, q) = quotient_of \<bar>x\<bar>;
               l = bitlen p - bitlen q;
               ex = (if 2 powi l \<le> \<bar>x\<bar> then l else l - 1);
               e = max (ex - 52) (- 1074);
               m = round_half_even (\<bar>x\<bar> / 2 powi e)
           in sgn x * of_int m * 2 powi e)"

text \<open>\<^verbatim>\<open>float(i)\<close>, \<^verbatim>\<open>x * y\<close> and \<^verbatim>\<open>x / y\<close> on floats; every divisor of the program is a
  non-zero literal.\<close>

definition float_of_int :: "int \<Rightarrow> rat" where
  "float_of_int i = binary64 (of_int i)"

definition float_mul :: "rat \<Rightarrow> rat \<Rightarrow> rat" where
  "float_mul x y = binary64 (x * y)"

definition float_truediv :: "rat \<Rightarrow> rat \<Rightarrow> rat" where
  "float_truediv x y = binary64 (x / y)"

text \<open>\<^verbatim>\<open>i / j\<close> on two ints is the correctly rounded quotient.\<close>

definition int_truediv :: "int \<Rightarrow> int \<Rightarrow> rat" where
  "int_truediv i j = binary64 (of_int i / of_int j)"

text \<open>
  \<^verbatim>\<open>round(x)\<close> and \<^verbatim>\<open>round(x, 2)\<close>. On a float the first gives an int, the second the
  float nearest to the value rounded at two decimals; an int (and a bool, which is an
  int) is returned as an int; \<^verbatim>\<open>None\<close> and tuples have no \<^verbatim>\<open>__round__\<close> and raise
  \<^verbatim>\<open>TypeError\<close>.
\<close>

fun py_round :: "pyval \<Rightarrow> error + pyval" where
  "py_round (PyFloat x) = Inr (PyInt (round_half_even x))"
| "py_round (PyInt i) = Inr (PyInt i)"
| "py_round (PyBool b) = Inr (PyInt (if b then 1 else 0))"
| "py_round PyNone = Inl TypeError"
| "py_round (PyTuple xs) = Inl TypeError"

fun py_round2 :: "pyval \<Rightarrow> error + pyval" where
  "py_round2 (PyFloat x) = Inr (PyFloat (binary64 (of_int (round_half_even (x * 100)) / 100)))"
| "py_round2 (PyInt i) = Inr (PyInt i)"
| "py_round2 (PyBool b) = Inr (PyInt (if b then 1 else 0))"
| "py_round2 PyNone = Inl TypeError"
| "py_round2 (PyTuple xs) = Inl TypeError"

section \<open>The bus\<close>

text \<open>
  What the program does to the outside is kept as a trace of events. The hardware is a
  function of the position in the trace, the bus number, the device address and the
  register: a transaction either fails (\<^verbatim>\<open>IOError\<close>) or yields the 16-bit word of the
  SMBus read-word transaction. An \<^verbatim>\<open>SMBus\<close> object is the number of the bus it opened.
\<close>

datatype event = Read nat nat nat | Sleep rat | LogError string "nat list"

record world =
  can_open :: "nat \<Rightarrow> bool"
  hardware :: "nat \<Rightarrow> nat \<Rightarrow> nat \<Rightarrow> nat \<Rightarrow> error + 16 word"
  trace :: "event list"

definition SMBus :: "nat \<Rightarrow> world \<Rightarrow> error + nat" where
  "SMBus n w = (if can_open w n then Inr n else Inl IOError)"

definition read_word_data :: "nat \<Rightarrow> nat \<Rightarrow> nat \<Rightarrow> world \<Rightarrow> (error + 16 word) \<times> world" where
  "read_word_data bus addr reg w =
     (hardware w (length (trace w)) bus addr reg, w\<lparr>trace := trace w @ [Read bus addr reg]\<rparr>)"

definition sleep :: "rat \<Rightarrow> world \<Rightarrow> world" where
  "sleep secs w = w\<lparr>trace := trace w @ [Sleep secs]\<rparr>"

definition log_error :: "string \<Rightarrow> nat list \<Rightarrow> world \<Rightarrow> world" where
  "log_error msg args w = w\<lparr>trace := trace w @ [LogError msg args]\<rparr>"

text \<open>\<^verbatim>\<open>struct.pack('>H', v)\<close> and \<^verbatim>\<open>struct.unpack('<H', bs)[0]\<close>.\<close>

definition pack_be_H :: "16 word \<Rightarrow> 8 word list" where
  "pack_be_H v = [ucast (drop_bit 8 v), ucast v]"

fun unpack_le_H :: "8 word list \<Rightarrow> error + 16 word" where
  "unpack_le_H [b0, b1] = Inr (ucast b0 OR push_bit 8 (ucast b1))"
| "unpack_le_H bs = Inl StructError"

section \<open>The register reader\<close>

record FieldData =
  status :: pyval
  voltage :: pyval
  capacity :: pyval

definition FieldData_init :: FieldData where
  "FieldData_init = \<lparr>status = PyNone, voltage = PyBool False, capacity = PyNone\<rparr>"

record UPS =
  data :: FieldData
  i2c_addr :: nat
  i2c :: nat

text \<open>
  \<^verbatim>\<open>UPS.get_sensor_data\<close>. An exception leaves the attributes written before it in
  place, so the object and the world are returned beside the result. The voltage
  assignment ends in a comma: its right-hand side is a tuple of one float.
\<close>

definition get_sensor_data :: "UPS \<Rightarrow> world \<Rightarrow> (error + pyval) \<times> UPS \<times> world" where
  "get_sensor_data self w =
     (case read_word_data (i2c self) (i2c_addr self) 2 w of
        (Inl e, w1) \<Rightarrow> (Inl e, self, w1)
      | (Inr read, w1) \<Rightarrow>
          (case unpack_le_H (pack_be_H read) of
             Inl e \<Rightarrow> (Inl e, self, w1)
           | Inr swapped \<Rightarrow>
               let self1 = self\<lparr>data := (data self)\<lparr>FieldData.voltage :=
                     PyTuple [PyFloat (float_truediv (float_truediv
                       (float_mul (float_of_int (uint swapped)) (5 / 4))
                       (float_of_int 1000)) (float_of_int 16))]\<rparr>\<rparr>
               in (case read_word_data (i2c self1) (i2c_addr self1) 4 w1 of
                     (Inl e, w2) \<Rightarrow> (Inl e, self1, w2)
                   | (Inr read, w2) \<Rightarrow>
                       (case unpack_le_H (pack_be_H read) of
                          Inl e \<Rightarrow> (Inl e, self1, w2)
                        | Inr swapped \<Rightarrow>
                            (Inr (PyBool True),
                             self1\<lparr>data := (data self1)\<lparr>FieldData.capacity :=
                               PyFloat (int_truediv (uint swapped) 256)\<rparr>\<rparr>,
                             w2)))))"

text \<open>\<^verbatim>\<open>UPS.__init__\<close>: without a bus object it opens bus 1; then it reads once.\<close>

definition UPS_init :: "nat \<Rightarrow> nat option \<Rightarrow> world \<Rightarrow> (error + UPS) \<times> world" where
  "UPS_init addr i2c_device w =
     (case (case i2c_device of None \<Rightarrow> SMBus 1 w | Some b \<Rightarrow> Inr b) of
        Inl e \<Rightarrow> (Inl e, w)
      | Inr b \<Rightarrow>
          (case get_sensor_data \<lparr>data = FieldData_init, i2c_addr = addr, i2c = b\<rparr> w of
             (Inl e, self, w1) \<Rightarrow> (Inl e, w1)
           | (Inr r, self, w1) \<Rightarrow> (Inr self, w1)))"

section \<open>The polling adapter\<close>

record SensorData =
  voltage :: pyval
  capacity :: pyval

definition SensorData_init :: SensorData where
  "SensorData_init = \<lparr>voltage = PyNone, capacity = PyNone\<rparr>"

record UPSHandler =
  sensor_data :: SensorData
  sensor :: UPS

text \<open>\<^verbatim>\<open>UPSHandler.update\<close>: no exception is caught here.\<close>

definition update :: "bool \<Rightarrow> UPSHandler \<Rightarrow> world \<Rightarrow> (error + unit) \<times> UPSHandler \<times> world" where
  "update first_read self w =
     (case (if first_read then get_sensor_data (sensor self) w
            else (Inr PyNone, sensor self, w)) of
        (Inl e, s1, w1) \<Rightarrow> (Inl e, self\<lparr>sensor := s1\<rparr>, w1)
      | (Inr r0, s1, w1) \<Rightarrow>
          (case get_sensor_data s1 w1 of
             (Inl e, s2, w2) \<Rightarrow> (Inl e, self\<lparr>sensor := s2\<rparr>, w2)
           | (Inr r, s2, w2) \<Rightarrow>
               if truthy r
               then (Inr (),
                     self\<lparr>sensor := s2,
                          sensor_data := (sensor_data self)
                            \<lparr>SensorData.voltage := FieldData.voltage (data s2),
                             SensorData.capacity := FieldData.capacity (data s2)\<rparr>\<rparr>,
                     w2)
               else (Inr (), self\<lparr>sensor := s2\<rparr>, w2)))"

definition UPSHandler_init :: "UPS \<Rightarrow> world \<Rightarrow> (error + unit) \<times> UPSHandler \<times> world" where
  "UPSHandler_init s w = update True \<lparr>sensor_data = SensorData_init, sensor = s\<rparr> w"

section \<open>The sensor entities\<close>

definition SENSOR_TYPES :: "string \<rightharpoonup> string \<times> string" where
  "SENSOR_TYPES = [''voltage'' \<mapsto> (''Voltage'', ''V''), ''capacity'' \<mapsto> (''Capacity'', ''%'')]"

text \<open>
  \<^verbatim>\<open>UPSSensor\<close>. Its \<^verbatim>\<open>UPS_client\<close> is the one handler that all entities share; the
  handler is passed to \<open>async_update\<close> and returned by it instead of being a field.

  The property \<^verbatim>\<open>icon\<close> has no model. Its branch for the low tier, lines 154 and 155 of
  the source, reads \<^verbatim>\<open>elif self._state >= 20\<close> without the colon and is indented with
  tabs inside a block indented with spaces: the text is not a Python function, and
  there is no behaviour of it to translate.
\<close>

record UPSSensor =
  client_name :: string
  name :: string
  temp_unit :: string
  sensor_type :: string
  state :: pyval
  unit_of_measurement :: string

definition UPSSensor_init :: "string \<Rightarrow> string \<Rightarrow> string \<Rightarrow> error + UPSSensor" where
  "UPSSensor_init ty unit nm =
     (case SENSOR_TYPES ty of
        None \<Rightarrow> Inl KeyError
      | Some (label, u) \<Rightarrow>
          Inr \<lparr>client_name = nm, name = label, temp_unit = unit, sensor_type = ty,
               state = PyNone, unit_of_measurement = u\<rparr>)"

text \<open>
  \<^verbatim>\<open>UPSSensor.async_update\<close>. The executor job runs \<^verbatim>\<open>update\<close> and hands its exception
  to the awaiting caller, so it is a call here.
\<close>

definition async_update ::
  "UPSSensor \<Rightarrow> UPSHandler \<Rightarrow> world \<Rightarrow> (error + unit) \<times> UPSSensor \<times> UPSHandler \<times> world" where
  "async_update self client w =
     (case update False client w of
        (Inl e, c1, w1) \<Rightarrow> (Inl e, self, c1, w1)
      | (Inr u, c1, w1) \<Rightarrow>
          if sensor_type self = ''voltage''
          then (case py_round2 (SensorData.voltage (sensor_data c1)) of
                  Inl e \<Rightarrow> (Inl e, self, c1, w1)
                | Inr v \<Rightarrow> (Inr (), self\<lparr>state := v\<rparr>, c1, w1))
          else if sensor_type self = ''capacity''
          then (case py_round (SensorData.capacity (sensor_data c1)) of
                  Inl e \<Rightarrow> (Inl e, self, c1, w1)
                | Inr v \<Rightarrow> (Inr (), self\<lparr>state := v\<rparr>, c1, w1))
          else (Inr (), self, c1, w1))"

section \<open>Setting up the platform\<close>

record config =
  CONF_NAME :: string
  CONF_I2C_ADDRESS :: nat
  CONF_I2C_BUS :: nat
  CONF_MONITORED_CONDITIONS :: "string list"

text \<open>The exceptions that the \<^verbatim>\<open>except (RuntimeError, IOError)\<close> clause catches.\<close>

definition caught :: "error \<Rightarrow> bool" where
  "caught e = (e = RuntimeError \<or> e = IOError)"

text \<open>
  \<^verbatim>\<open>_setup_UPS\<close>. Only the construction of the bus and of the \<^verbatim>\<open>UPS\<close> object is inside
  the \<^verbatim>\<open>try\<close>; the handler is constructed after it, then comes \<^verbatim>\<open>sleep(0.5)\<close>, then the
  test of the cached voltage.
\<close>

definition setup_UPS :: "config \<Rightarrow> world \<Rightarrow> (error + UPSHandler option) \<times> world" where
  "setup_UPS cfg w =
     (let i2c_address = CONF_I2C_ADDRESS cfg
      in case SMBus (CONF_I2C_BUS cfg) w of
           Inl e \<Rightarrow>
             if caught e
             then (Inr None, log_error ''UPS sensor not detected at 0x%02x'' [i2c_address] w)
             else (Inl e, w)
         | Inr bus \<Rightarrow>
             (case UPS_init i2c_address (Some bus) w of
                (Inl e, w1) \<Rightarrow>
                  if caught e
                  then (Inr None, log_error ''UPS sensor not detected at 0x%02x'' [i2c_address] w1)
                  else (Inl e, w1)
              | (Inr ups, w1) \<Rightarrow>
                  (case UPSHandler_init ups w1 of
                     (Inl e, sensor_handler, w2) \<Rightarrow> (Inl e, w2)
                   | (Inr u, sensor_handler, w2) \<Rightarrow>
                       let w3 = sleep (1 / 2) w2
                       in if \<not> truthy (SensorData.voltage (sensor_data sensor_handler))
                          then (Inr None, log_error ''UPS sensor failed to Initialize'' [] w3)
                          else (Inr (Some sensor_handler), w3))))"

text \<open>The loop of \<^verbatim>\<open>async_setup_platform\<close> that builds the list \<^verbatim>\<open>dev\<close>.\<close>

fun make_entities :: "string \<Rightarrow> string list \<Rightarrow> error + UPSSensor list" where
  "make_entities nm [] = Inr []"
| "make_entities nm (variable # rest) =
     (case SENSOR_TYPES variable of
        None \<Rightarrow> Inl KeyError
      | Some (label, u) \<Rightarrow>
          (case UPSSensor_init variable u nm of
             Inl e \<Rightarrow> Inl e
           | Inr s \<Rightarrow>
               (case make_entities nm rest of
                  Inl e \<Rightarrow> Inl e
                | Inr dev \<Rightarrow> Inr (s # dev))))"

text \<open>
  \<^verbatim>\<open>async_setup_platform\<close>: the result is the list given to \<^verbatim>\<open>async_add_entities\<close>, or
  \<open>None\<close> when that is never called; the handler the entities share is returned with it.
\<close>

definition async_setup_platform ::
  "config \<Rightarrow> world \<Rightarrow> (error + UPSSensor list option) \<times> UPSHandler option \<times> world" where
  "async_setup_platform cfg w =
     (case setup_UPS cfg w of
        (Inl e, w1) \<Rightarrow> (Inl e, None, w1)
      | (Inr None, w1) \<Rightarrow> (Inr None, None, w1)
      | (Inr (Some sensor_handler), w1) \<Rightarrow>
          (case make_entities (CONF_NAME cfg) (CONF_MONITORED_CONDITIONS cfg) of
             Inl e \<Rightarrow> (Inl e, Some sensor_handler, w1)
           | Inr dev \<Rightarrow> (Inr (Some dev), Some sensor_handler, w1)))"

text \<open>The events that are bus transactions.\<close>

fun is_read :: "event \<Rightarrow> bool" where
  "is_read (Read b a g) = True"
| "is_read ev = False"

section \<open>Sample hardware\<close>

text \<open>
  Hardware whose two registers hold fixed words from transaction \<open>lo\<close> up to, but not
  including, transaction \<open>hi\<close>, and that does not answer outside this window or on any
  other register.
\<close>

definition answering ::
  "nat \<Rightarrow> nat \<Rightarrow> 16 word \<Rightarrow> 16 word \<Rightarrow> nat \<Rightarrow> nat \<Rightarrow> nat \<Rightarrow> nat \<Rightarrow> error + 16 word" where
  "answering lo hi v c t bus addr reg =
     (if lo \<le> t \<and> t < hi \<and> reg = 2 then Inr v
      else if lo \<le> t \<and> t < hi \<and> reg = 4 then Inr c
      else Inl IOError)"

definition sample_world :: "nat \<Rightarrow> nat \<Rightarrow> 16 word \<Rightarrow> 16 word \<Rightarrow> world" where
  "sample_world lo hi v c = \<lparr>can_open = (\<lambda>n. True), hardware = answering lo hi v c, trace = []\<rparr>"

definition sample_UPS :: UPS where
  "sample_UPS = \<lparr>data = FieldData_init, i2c_addr = 54, i2c = 1\<rparr>"

definition sample_config :: config where
  "sample_config =
     \<lparr>CONF_NAME = ''UPS Sensor'', CONF_I2C_ADDRESS = 54, CONF_I2C_BUS = 1,
      CONF_MONITORED_CONDITIONS = [''voltage'', ''capacity'']\<rparr>"

definition sample_reading :: SensorData where
  "sample_reading = \<lparr>voltage = PyTuple [PyFloat (binary64 (1 / 800))], capacity = PyFloat 50\<rparr>"

definition sample_handler :: UPSHandler where
  "sample_handler =
     \<lparr>sensor_data = sample_reading,
      sensor = \<lparr>data = \<lparr>status = PyNone, voltage = PyTuple [PyFloat (binary64 (1 / 800))],
                         capacity = PyFloat 50\<rparr>,
                i2c_addr = 54, i2c = 1\<rparr>\<rparr>"

text \<open>The events of a set-up on which every read is answered, and the world after it.\<close>

definition setup_events :: "nat \<Rightarrow> nat \<Rightarrow> event list" where
  "setup_events b a =
     [Read b a 2, Read b a 4, Read b a 2, Read b a 4, Read b a 2, Read b a 4, Sleep (1 / 2)]"

definition ready_world :: "nat \<Rightarrow> world" where
  "ready_world hi = (sample_world 0 hi 4096 50)\<lparr>trace := setup_events 1 54\<rparr>"

definition voltage_entity :: UPSSensor where
  "voltage_entity =
     \<lparr>client_name = ''UPS Sensor'', name = ''Voltage'', temp_unit = ''V'',
      sensor_type = ''voltage'', state = PyNone, unit_of_measurement = ''V''\<rparr>"

definition capacity_entity :: UPSSensor where
  "capacity_entity =
     \<lparr>client_name = ''UPS Sensor'', name = ''Capacity'', temp_unit = ''%'',
      sensor_type = ''capacity'', state = PyNone, unit_of_measurement = ''%''\<rparr>"

section \<open>The decode in the words of the specification\<close>

text \<open>
  The byte swap of the glossary: the two bytes of a 16-bit value change places. The
  reader obtains it by packing big-endian and unpacking little-endian.
\<close>

definition byte_swap :: "16 word \<Rightarrow> 16 word" where
  "byte_swap v = push_bit 8 v OR drop_bit 8 v"

text \<open>The expression \<^verbatim>\<open>swapped * 1.25 / 1000 / 16\<close> as Python evaluates it, left to right.\<close>

abbreviation scale_voltage :: "int \<Rightarrow> rat" where
  "scale_voltage s \<equiv>
     float_truediv (float_truediv (float_mul (float_of_int s) (5 / 4)) (float_of_int 1000))
       (float_of_int 16)"

section \<open>Exact results of binary64 rounding\<close>

lemma round_half_even_of_int: "round_half_even (of_int n) = n"
  by (simp add: round_half_even_def)

lemma bitlen_quotient_lower:
  assumes "0 < a" "quotient_of a = (p, q)"
  shows "(2::rat) powi (bitlen p - bitlen q - 1) \<le> a"
proof -
  have q: "0 < q" using assms(2) quotient_of_denom_pos by blast
  have a: "a = of_int p / of_int q" using assms(2) quotient_of_div by blast
  have p: "0 < p" using assms(1) q a by (simp add: zero_less_divide_iff)
  have bp: "1 \<le> bitlen p" using p by (simp add: bitlen_alt_def)
  have "(2::int) ^ nat (bitlen p - 1) \<le> p" using bitlen_bounds [OF p] by simp
  then have 1: "(2::rat) ^ nat (bitlen p - 1) \<le> of_int p"
    by (metis of_int_le_iff of_int_numeral of_int_power)
  have "q < 2 ^ nat (bitlen q)" using bitlen_bounds [OF q] by simp
  then have 2: "of_int q < (2::rat) ^ nat (bitlen q)"
    by (metis of_int_less_iff of_int_numeral of_int_power)
  have 3: "(2::rat) powi (bitlen p - bitlen q - 1) = 2 ^ nat (bitlen p - 1) / 2 ^ nat (bitlen q)"
    using bp bitlen_nonneg [of q]
    by (simp add: diff_right_commute power_int_diff power_int_nonneg_exp)
  have "2 ^ nat (bitlen p - 1) / 2 ^ nat (bitlen q) \<le> of_int p / (2::rat) ^ nat (bitlen q)"
    using 1 by (simp add: divide_right_mono)
  also have "\<dots> \<le> of_int p / of_int q"
    using 2 p q by (simp add: frac_le)
  finally show ?thesis using 3 a by simp
qed

lemma binary64_exponent_lower:
  assumes "0 < a" "quotient_of a = (p, q)"
  shows "(2::rat) powi (if 2 powi (bitlen p - bitlen q) \<le> a then bitlen p - bitlen q
                        else bitlen p - bitlen q - 1) \<le> a"
  using bitlen_quotient_lower [OF assms] by simp

text \<open>A number with a significand below \<open>2 ^ 53\<close> is a binary64 number: rounding keeps it.\<close>

lemma binary64_exact:
  assumes x: "x = of_int m * 2 powi k" and m: "\<bar>m\<bar> < 2 ^ 53" and k: "- 1074 \<le> k"
  shows "binary64 x = x"
proof (cases "x = 0")
  case True
  then show ?thesis by (simp add: binary64_def)
next
  case False
  obtain p q where pq: "quotient_of \<bar>x\<bar> = (p, q)" by (cases "quotient_of \<bar>x\<bar>")
  define l where "l = bitlen p - bitlen q"
  define ex where "ex = (if 2 powi l \<le> \<bar>x\<bar> then l else l - 1)"
  define e where "e = max (ex - 52) (- 1074)"
  have pos: "0 < \<bar>x\<bar>" using False by simp
  have lower: "(2::rat) powi ex \<le> \<bar>x\<bar>"
    unfolding ex_def l_def using binary64_exponent_lower [OF pos pq] .
  have absx: "\<bar>x\<bar> = of_int \<bar>m\<bar> * 2 powi k"
    by (simp add: x abs_mult)
  have "of_int \<bar>m\<bar> < (2::rat) ^ 53" using m
    by (metis of_int_less_iff of_int_numeral of_int_power)
  then have "\<bar>x\<bar> < 2 ^ 53 * 2 powi k"
    unfolding absx by (simp add: mult_strict_right_mono)
  also have "\<dots> = (2::rat) powi (53 + k)"
    by (simp add: power_int_add)
  finally have "(2::rat) powi ex < 2 powi (53 + k)" using lower by simp
  then have "ex < 53 + k"
    using power_int_increasing [of "53 + k" ex "2::rat"] by (cases "ex < 53 + k") simp_all
  then have ek: "e \<le> k" unfolding e_def using k by simp
  have "\<bar>x\<bar> / 2 powi e = of_int \<bar>m\<bar> * 2 powi (k - e)"
    unfolding absx by (simp add: power_int_diff)
  also have "(2::rat) powi (k - e) = 2 ^ nat (k - e)"
    using ek by (simp add: power_int_def)
  finally have scaled: "\<bar>x\<bar> / 2 powi e = of_int (\<bar>m\<bar> * 2 ^ nat (k - e))"
    by simp
  have "binary64 x = sgn x * of_int (round_half_even (\<bar>x\<bar> / 2 powi e)) * 2 powi e"
    using False pq by (simp add: binary64_def Let_def l_def ex_def e_def)
  also have "\<dots> = sgn x * (\<bar>x\<bar> / 2 powi e) * 2 powi e"
    unfolding scaled round_half_even_of_int ..
  also have "\<dots> = sgn x * \<bar>x\<bar>" by simp
  also have "\<dots> = x" by (simp add: sgn_mult_abs)
  finally show ?thesis .
qed

lemma binary64_of_int: "\<bar>n\<bar> < 2 ^ 53 \<Longrightarrow> binary64 (of_int n) = of_int n"
  by (rule binary64_exact [where m = n and k = 0]) simp_all

text \<open>Dividing a 16-bit value by 256 is exact.\<close>

lemma int_truediv_256_exact:
  assumes "0 \<le> n" "n < 65536"
  shows "int_truediv n 256 = of_int n / 256"
  unfolding int_truediv_def of_int_numeral
proof (rule binary64_exact [where m = n and k = "- 8"])
  show "(of_int n / 256 :: rat) = of_int n * 2 powi (- 8)"
  proof -
    have "(2::rat) powi (- 8) = 1 / 256" by (simp add: power_int_def power_divide)
    then show ?thesis by simp
  qed
  show "\<bar>n\<bar> < 2 ^ 53" using assms by simp
  show "- 1074 \<le> (- 8 :: int)" by simp
qed

text \<open>The value of the Python expression \<^verbatim>\<open>16 * 1.25 / 1000 / 16\<close> is the float \<^verbatim>\<open>0.00125\<close>.\<close>

lemma scale_voltage_16: "scale_voltage 16 = binary64 (1 / 800)"
  unfolding float_truediv_def float_mul_def float_of_int_def by code_simp

lemma scale_voltage_0: "scale_voltage 0 = 0"
  by (simp add: float_truediv_def float_mul_def float_of_int_def binary64_def)

section \<open>The byte swap\<close>

lemma unpack_pack_swap: "unpack_le_H (pack_be_H v) = Inr (byte_swap v)"
  unfolding pack_be_H_def byte_swap_def
  apply simp
  apply (rule bit_word_eqI)
  apply (auto simp: bit_simps dest: bit_imp_le_length)
  done

lemma uint_byte_swap: "uint (byte_swap v) = (uint v mod 256) * 256 + uint v div 256"
proof -
  have disj: "push_bit 8 v AND drop_bit 8 v = 0"
    by (rule bit_word_eqI) (auto simp: bit_simps dest: bit_imp_le_length)
  have r: "0 \<le> uint v" "uint v < 65536"
    using uint_lt2p [of v] by simp_all
  have "byte_swap v = push_bit 8 v + drop_bit 8 v"
    unfolding byte_swap_def using disjunctive_add_eq_or [OF disj] by simp
  then have "uint (byte_swap v) = (uint (push_bit 8 v) + uint (drop_bit 8 v)) mod 65536"
    by (simp add: uint_word_ariths)
  also have "uint (push_bit 8 v) = (uint v * 256) mod 65536"
    by (simp add: push_bit_eq_mult uint_word_ariths)
  also have "uint (drop_bit 8 v) = uint v div 256"
    by (simp add: drop_bit_eq_div uint_div)
  finally have eq: "uint (byte_swap v) = (uint v * 256 mod 65536 + uint v div 256) mod 65536" .
  have m: "uint v * 256 mod 65536 = (uint v mod 256) * 256"
    using mult_mod_right [of 256 "uint v" 256] by (simp add: mult.commute)
  have a: "0 \<le> uint v mod 256" "uint v mod 256 < 256" by simp_all
  have b: "0 \<le> uint v div 256" "uint v div 256 < 256"
    using r by (simp_all add: pos_imp_zdiv_nonneg_iff)
  have "0 \<le> (uint v mod 256) * 256 + uint v div 256"
    "(uint v mod 256) * 256 + uint v div 256 < 65536"
    using a b by linarith+
  then show ?thesis unfolding eq m by simp
qed

lemma uint_byte_swap_bounds: "0 \<le> uint (byte_swap v)" "uint (byte_swap v) < 65536"
  using uint_lt2p [of "byte_swap v"] by simp_all

lemma byte_swap_0x1000: "uint (byte_swap 4096) = 16"
  by (simp add: byte_swap_def)

lemma byte_swap_0x0032: "uint (byte_swap 50) = 12800"
  by (simp add: byte_swap_def)

section \<open>Properties of the register reader\<close>

text \<open>
  The three ways through \<^verbatim>\<open>get_sensor_data\<close>, by the answers of the hardware to its
  two transactions.
\<close>

lemma get_sensor_data_unfold:
  "get_sensor_data self w =
     (case hardware w (length (trace w)) (i2c self) (i2c_addr self) 2 of
        Inl e \<Rightarrow> (Inl e, self, w\<lparr>trace := trace w @ [Read (i2c self) (i2c_addr self) 2]\<rparr>)
      | Inr v \<Rightarrow>
          (case hardware w (Suc (length (trace w))) (i2c self) (i2c_addr self) 4 of
             Inl e \<Rightarrow>
               (Inl e,
                self\<lparr>data := (data self)\<lparr>FieldData.voltage :=
                  PyTuple [PyFloat (scale_voltage (uint (byte_swap v)))]\<rparr>\<rparr>,
                w\<lparr>trace := trace w @
                  [Read (i2c self) (i2c_addr self) 2, Read (i2c self) (i2c_addr self) 4]\<rparr>)
           | Inr c \<Rightarrow>
               (Inr (PyBool True),
                self\<lparr>data := (data self)\<lparr>FieldData.voltage :=
                    PyTuple [PyFloat (scale_voltage (uint (byte_swap v)))],
                  FieldData.capacity := PyFloat (int_truediv (uint (byte_swap c)) 256)\<rparr>\<rparr>,
                w\<lparr>trace := trace w @
                  [Read (i2c self) (i2c_addr self) 2, Read (i2c self) (i2c_addr self) 4]\<rparr>)))"
  by (simp add: get_sensor_data_def read_word_data_def unpack_pack_swap Let_def
      split: sum.splits)

lemma get_sensor_data_cases:
  assumes "get_sensor_data self w = (r, self', w')"
  obtains
    (fail2) e where "r = Inl e" "self' = self"
  | (fail4) e v where "r = Inl e"
      "self' = self\<lparr>data := (data self)\<lparr>FieldData.voltage := PyTuple [PyFloat v]\<rparr>\<rparr>"
  | (ok) v c where "r = Inr (PyBool True)"
      "self' = self\<lparr>data := (data self)\<lparr>FieldData.voltage := PyTuple [PyFloat v],
                                        FieldData.capacity := PyFloat c\<rparr>\<rparr>"
  using assms
  by (auto simp: get_sensor_data_unfold split: sum.splits)

lemma sample_read:
  assumes "2 \<le> hi"
  shows "get_sensor_data sample_UPS (sample_world 0 hi v c) =
     (Inr (PyBool True),
      sample_UPS\<lparr>data := FieldData_init\<lparr>FieldData.voltage :=
          PyTuple [PyFloat (scale_voltage (uint (byte_swap v)))],
        FieldData.capacity := PyFloat (int_truediv (uint (byte_swap c)) 256)\<rparr>\<rparr>,
      (sample_world 0 hi v c)\<lparr>trace := [Read 1 54 2, Read 1 54 4]\<rparr>)"
  using assms
  by (simp add: get_sensor_data_unfold sample_world_def answering_def sample_UPS_def)

text \<open>
  Whenever the read of register 2 is answered, the voltage field holds a tuple; its one
  element is the byte-swapped word scaled by \<^verbatim>\<open>1.25 / 1000 / 16\<close>.
\<close>

lemma voltage_is_tuple_of_scaled_swap:
  assumes "hardware w (length (trace w)) (i2c self) (i2c_addr self) 2 = Inr raw"
  shows "FieldData.voltage (data (fst (snd (get_sensor_data self w))))
           = PyTuple [PyFloat (scale_voltage (uint (byte_swap raw)))]"
  using assms by (simp add: get_sensor_data_unfold split: sum.splits)

text \<open>
  C1: for the raw voltage word \<open>0x1000\<close> the reader does not store the float
  \<^verbatim>\<open>0.00125\<close> in its voltage field: the assignment ends in a comma, and what is stored
  is the tuple \<^verbatim>\<open>(0.00125,)\<close>.
\<close>

theorem voltage_0x1000_stored_as_tuple:
  "FieldData.voltage (data (fst (snd (get_sensor_data sample_UPS (sample_world 0 2 4096 50)))))
     = PyTuple [PyFloat (binary64 (1 / 800))]
   \<and> FieldData.voltage (data (fst (snd (get_sensor_data sample_UPS (sample_world 0 2 4096 50)))))
     \<noteq> PyFloat (binary64 (1 / 800))"
  using sample_read [of 2 4096 50]
  by (simp add: byte_swap_0x1000 scale_voltage_16)

text \<open>
  C2: for every 16-bit word that register 4 answers, after register 2 has answered, the
  read completes and the capacity field holds the byte-swapped word divided by 256,
  exactly: nothing clamps it to the range from 0 to 100.
\<close>

theorem capacity_is_swapped_over_256:
  assumes "hardware w (length (trace w)) (i2c self) (i2c_addr self) 2 = Inr v"
    and "hardware w (Suc (length (trace w))) (i2c self) (i2c_addr self) 4 = Inr raw"
  shows "fst (get_sensor_data self w) = Inr (PyBool True)
     \<and> FieldData.capacity (data (fst (snd (get_sensor_data self w))))
         = PyFloat (of_int (uint (byte_swap raw)) / 256)"
  using assms uint_byte_swap_bounds [of raw]
  by (simp add: get_sensor_data_unfold int_truediv_256_exact)

theorem capacity_is_swapped_over_256_witness:
  "hardware (sample_world 0 2 4096 50) (length (trace (sample_world 0 2 4096 50)))
      (i2c sample_UPS) (i2c_addr sample_UPS) 2 = Inr 4096
   \<and> hardware (sample_world 0 2 4096 50) (Suc (length (trace (sample_world 0 2 4096 50))))
      (i2c sample_UPS) (i2c_addr sample_UPS) 4 = Inr 50
   \<and> fst (get_sensor_data sample_UPS (sample_world 0 2 4096 50)) = Inr (PyBool True)
   \<and> FieldData.capacity (data (fst (snd (get_sensor_data sample_UPS (sample_world 0 2 4096 50)))))
       = PyFloat 50"
proof -
  have v: "hardware (sample_world 0 2 4096 50) (length (trace (sample_world 0 2 4096 50)))
      (i2c sample_UPS) (i2c_addr sample_UPS) 2 = Inr 4096"
    and c: "hardware (sample_world 0 2 4096 50) (Suc (length (trace (sample_world 0 2 4096 50))))
      (i2c sample_UPS) (i2c_addr sample_UPS) 4 = Inr 50"
    by (simp_all add: sample_world_def answering_def)
  from capacity_is_swapped_over_256 [OF v c] v c show ?thesis
    by (simp add: byte_swap_0x0032)
qed

text \<open>A capacity word above the nominal range: \<open>0x00C8\<close> decodes to 200 percent.\<close>

lemma capacity_not_clamped:
  "FieldData.capacity (data (fst (snd (get_sensor_data sample_UPS (sample_world 0 2 4096 200)))))
     = PyFloat 200"
proof -
  have "uint (byte_swap 200) = 51200" by (simp add: byte_swap_def)
  then show ?thesis
    using sample_read [of 2 4096 200]
    by (simp add: int_truediv_256_exact)
qed

text \<open>
  C10: a call of \<^verbatim>\<open>UPS.get_sensor_data\<close> that runs to completion returns \<^verbatim>\<open>True\<close>
  and nothing else; a failure of the bus is never a falsy return value.
\<close>

theorem get_sensor_data_returns_True:
  "(get_sensor_data self w = (Inr r, self', w') \<longrightarrow> r = PyBool True)
   \<and> (hardware w (length (trace w)) (i2c self) (i2c_addr self) 2 = Inl e
        \<or> (\<exists>v. hardware w (length (trace w)) (i2c self) (i2c_addr self) 2 = Inr v
             \<and> hardware w (Suc (length (trace w))) (i2c self) (i2c_addr self) 4 = Inl e)
      \<longrightarrow> fst (get_sensor_data self w) = Inl e)"
  by (auto simp: get_sensor_data_unfold split: sum.splits)

theorem get_sensor_data_returns_True_witness:
  "(\<exists>r self' w'. get_sensor_data sample_UPS (sample_world 0 2 4096 50) = (Inr r, self', w')
      \<and> r = PyBool True)
   \<and> hardware (sample_world 0 0 4096 50) (length (trace (sample_world 0 0 4096 50)))
        (i2c sample_UPS) (i2c_addr sample_UPS) 2 = Inl IOError
   \<and> fst (get_sensor_data sample_UPS (sample_world 0 0 4096 50)) = Inl IOError"
proof -
  obtain r self' w' where h: "get_sensor_data sample_UPS (sample_world 0 2 4096 50) = (Inr r, self', w')"
    using sample_read [of 2 4096 50] by simp
  have d: "hardware (sample_world 0 0 4096 50) (length (trace (sample_world 0 0 4096 50)))
        (i2c sample_UPS) (i2c_addr sample_UPS) 2 = Inl IOError"
    by (simp add: sample_world_def answering_def)
  from get_sensor_data_returns_True [of sample_UPS "sample_world 0 2 4096 50" r self' w'] h
  have "r = PyBool True" by blast
  moreover
  from get_sensor_data_returns_True [of sample_UPS "sample_world 0 0 4096 50" _ _ _ IOError] d
  have "fst (get_sensor_data sample_UPS (sample_world 0 0 4096 50)) = Inl IOError" by blast
  ultimately show ?thesis using h d by blast
qed

lemma get_sensor_data_Inr:
  assumes "get_sensor_data self w = (Inr r, self', w')"
  shows "r = PyBool True"
    and "trace w' = trace w @ [Read (i2c self) (i2c_addr self) 2, Read (i2c self) (i2c_addr self) 4]"
    and "hardware w' = hardware w" and "can_open w' = can_open w"
    and "i2c self' = i2c self" and "i2c_addr self' = i2c_addr self"
    and "\<exists>v c. FieldData.voltage (data self') = PyTuple [PyFloat v]
           \<and> FieldData.capacity (data self') = PyFloat c"
  using assms by (auto simp: get_sensor_data_unfold split: sum.splits)

lemma get_sensor_data_Inl:
  assumes "get_sensor_data self w = (Inl e, self', w')"
  shows "\<exists>evs. trace w' = trace w @ evs \<and> list_all is_read evs"
    and "hardware w' = hardware w" and "can_open w' = can_open w"
    and "i2c self' = i2c self" and "i2c_addr self' = i2c_addr self"
  using assms by (auto simp: get_sensor_data_unfold split: sum.splits)

section \<open>Properties of the polling adapter\<close>

lemma update_poll_ok:
  assumes "hardware w (length (trace w)) (i2c (sensor self)) (i2c_addr (sensor self)) 2 = Inr v"
    and "hardware w (Suc (length (trace w))) (i2c (sensor self)) (i2c_addr (sensor self)) 4 = Inr c"
  shows "update False self w =
     (Inr (),
      self\<lparr>sensor := (sensor self)\<lparr>data := (data (sensor self))\<lparr>FieldData.voltage :=
                  PyTuple [PyFloat (scale_voltage (uint (byte_swap v)))],
                FieldData.capacity := PyFloat (int_truediv (uint (byte_swap c)) 256)\<rparr>\<rparr>,
           sensor_data := (sensor_data self)\<lparr>SensorData.voltage :=
                  PyTuple [PyFloat (scale_voltage (uint (byte_swap v)))],
                SensorData.capacity := PyFloat (int_truediv (uint (byte_swap c)) 256)\<rparr>\<rparr>,
      w\<lparr>trace := trace w @ [Read (i2c (sensor self)) (i2c_addr (sensor self)) 2,
                             Read (i2c (sensor self)) (i2c_addr (sensor self)) 4]\<rparr>)"
  using assms by (simp add: update_def get_sensor_data_unfold)

lemma update_poll_fails:
  assumes "hardware w (length (trace w)) (i2c (sensor self)) (i2c_addr (sensor self)) 2 = Inl e
     \<or> (\<exists>v. hardware w (length (trace w)) (i2c (sensor self)) (i2c_addr (sensor self)) 2 = Inr v
          \<and> hardware w (Suc (length (trace w))) (i2c (sensor self)) (i2c_addr (sensor self)) 4 = Inl e)"
  shows "fst (update False self w) = Inl e"
    and "sensor_data (fst (snd (update False self w))) = sensor_data self"
  using assms by (auto simp: update_def get_sensor_data_unfold)

lemma update_cases:
  assumes "update first_read self w = (r, self', w')"
  obtains
    (raised) e where "r = Inl e" "sensor_data self' = sensor_data self"
  | (stored) v c where "r = Inr ()"
      "sensor_data self' = \<lparr>voltage = PyTuple [PyFloat v], capacity = PyFloat c\<rparr>"
      "FieldData.voltage (data (sensor self')) = PyTuple [PyFloat v]"
      "FieldData.capacity (data (sensor self')) = PyFloat c"
proof (cases r)
  case (Inl e)
  with assms have "sensor_data self' = sensor_data self"
    by (auto simp: update_def split: if_splits prod.splits sum.splits)
  with Inl show ?thesis by (rule raised)
next
  case (Inr u)
  with assms obtain s1 w1 r2 where
    g: "get_sensor_data s1 w1 = (Inr r2, sensor self', w')"
    and sd: "sensor_data self' =
       (if truthy r2
        then (sensor_data self)
          \<lparr>SensorData.voltage := FieldData.voltage (data (sensor self')),
           SensorData.capacity := FieldData.capacity (data (sensor self'))\<rparr>
        else sensor_data self)"
    by (auto simp: update_def split: if_splits prod.splits sum.splits)
  from get_sensor_data_Inr(1,7) [OF g] obtain v c where
    "truthy r2" "FieldData.voltage (data (sensor self')) = PyTuple [PyFloat v]"
    "FieldData.capacity (data (sensor self')) = PyFloat c"
    by auto
  with sd Inr show ?thesis by (intro stored [of v c]) auto
qed

text \<open>The sample handler polls hardware that still answers, and hardware that stopped.\<close>

lemma sample_poll_ok:
  assumes "9 \<le> hi"
  shows "update False sample_handler (ready_world hi) =
     (Inr (), sample_handler,
      (ready_world hi)\<lparr>trace := setup_events 1 54 @ [Read 1 54 2, Read 1 54 4]\<rparr>)"
proof -
  have "hardware (ready_world hi) (length (trace (ready_world hi)))
          (i2c (sensor sample_handler)) (i2c_addr (sensor sample_handler)) 2 = Inr 4096"
    and "hardware (ready_world hi) (Suc (length (trace (ready_world hi))))
          (i2c (sensor sample_handler)) (i2c_addr (sensor sample_handler)) 4 = Inr 50"
    using assms
    by (simp_all add: ready_world_def sample_world_def setup_events_def answering_def)
  from update_poll_ok [OF this] show ?thesis
    by (simp add: byte_swap_0x1000 byte_swap_0x0032 scale_voltage_16 int_truediv_256_exact
        sample_handler_def sample_reading_def ready_world_def sample_world_def)
qed

lemma sample_poll_dead:
  "hardware (ready_world 6) (length (trace (ready_world 6)))
     (i2c (sensor sample_handler)) (i2c_addr (sensor sample_handler)) 2 = Inl IOError"
  by (simp add: ready_world_def sample_world_def setup_events_def answering_def)

section \<open>Properties of the set-up\<close>

lemma UPS_init_Inr:
  assumes "UPS_init addr (Some b) w = (Inr ups, w1)"
  shows "trace w1 = trace w @ [Read b addr 2, Read b addr 4]"
    and "i2c ups = b" and "i2c_addr ups = addr"
  using assms
  by (auto simp: UPS_init_def split: prod.splits sum.splits dest: get_sensor_data_Inr)

lemma UPS_init_Inl:
  assumes "UPS_init addr (Some b) w = (Inl e, w1)"
  shows "\<exists>evs. trace w1 = trace w @ evs \<and> list_all is_read evs"
  using assms
  by (auto simp: UPS_init_def split: prod.splits sum.splits dest: get_sensor_data_Inl(1))

lemma UPSHandler_init_Inr:
  assumes "UPSHandler_init ups w = (Inr u, h, w2)"
  shows "trace w2 = trace w @ [Read (i2c ups) (i2c_addr ups) 2, Read (i2c ups) (i2c_addr ups) 4,
                               Read (i2c ups) (i2c_addr ups) 2, Read (i2c ups) (i2c_addr ups) 4]"
    and "truthy (SensorData.voltage (sensor_data h))"
proof -
  from assms obtain r0 s1 w1 r s2 where
    g1: "get_sensor_data ups w = (Inr r0, s1, w1)" and
    g2: "get_sensor_data s1 w1 = (Inr r, s2, w2)"
    by (auto simp: UPSHandler_init_def update_def split: prod.splits sum.splits if_splits)
  from get_sensor_data_Inr(2,5,6) [OF g1] get_sensor_data_Inr(2) [OF g2]
  show "trace w2 = trace w @ [Read (i2c ups) (i2c_addr ups) 2, Read (i2c ups) (i2c_addr ups) 4,
                               Read (i2c ups) (i2c_addr ups) 2, Read (i2c ups) (i2c_addr ups) 4]"
    by simp
  from assms show "truthy (SensorData.voltage (sensor_data h))"
    unfolding UPSHandler_init_def by (rule update_cases) auto
qed

lemma UPSHandler_init_Inl:
  assumes "UPSHandler_init ups w = (Inl e, h, w2)"
  shows "\<exists>evs. trace w2 = trace w @ evs \<and> list_all is_read evs"
proof -
  from assms consider
    (first) "get_sensor_data ups w = (Inl e, sensor h, w2)"
  | (second) r0 s1 w1 where "get_sensor_data ups w = (Inr r0, s1, w1)"
      "get_sensor_data s1 w1 = (Inl e, sensor h, w2)"
    by (auto simp: UPSHandler_init_def update_def split: prod.splits sum.splits if_splits)
  then show ?thesis
  proof cases
    case first
    then show ?thesis by (rule get_sensor_data_Inl(1))
  next
    case second
    from get_sensor_data_Inl(1) [OF second(2)] obtain evs where
      "trace w2 = trace w1 @ evs" "list_all is_read evs" by blast
    with get_sensor_data_Inr(2) [OF second(1)] show ?thesis
      by (intro exI [of _ "[Read (i2c ups) (i2c_addr ups) 2, Read (i2c ups) (i2c_addr ups) 4] @ evs"])
        simp
  qed
qed

text \<open>The three outcomes of \<^verbatim>\<open>_setup_UPS\<close> and what each leaves in the trace.\<close>

lemma setup_UPS_cases:
  assumes "setup_UPS cfg w = (r, w')"
  obtains
    (ready) h where "r = Inr (Some h)"
      "trace w' = trace w @ setup_events (CONF_I2C_BUS cfg) (CONF_I2C_ADDRESS cfg)"
      "truthy (SensorData.voltage (sensor_data h))"
  | (undetected) evs where "r = Inr None"
      "trace w' = trace w @ evs @
         [LogError ''UPS sensor not detected at 0x%02x'' [CONF_I2C_ADDRESS cfg]]"
      "list_all is_read evs"
  | (raised) e evs where "r = Inl e" "trace w' = trace w @ evs" "list_all is_read evs"
proof (cases "SMBus (CONF_I2C_BUS cfg) w")
  case (Inl e)
  with assms have "r = Inr None"
    "trace w' = trace w @ [] @ [LogError ''UPS sensor not detected at 0x%02x'' [CONF_I2C_ADDRESS cfg]]"
    by (auto simp: setup_UPS_def SMBus_def caught_def log_error_def split: if_splits)
  then show ?thesis by (rule undetected) simp
next
  case (Inr bus)
  then have bus: "bus = CONF_I2C_BUS cfg"
    by (auto simp: SMBus_def split: if_splits)
  obtain r1 w1 where u: "UPS_init (CONF_I2C_ADDRESS cfg) (Some bus) w = (r1, w1)"
    by (cases "UPS_init (CONF_I2C_ADDRESS cfg) (Some bus) w")
  show ?thesis
  proof (cases r1)
    case (Inl e)
    from UPS_init_Inl [OF u [unfolded Inl]] obtain evs where
      evs: "trace w1 = trace w @ evs" "list_all is_read evs" by blast
    show ?thesis
    proof (cases "caught e")
      case True
      with assms Inr u Inl evs have "r = Inr None"
        "trace w' = trace w @ evs @
           [LogError ''UPS sensor not detected at 0x%02x'' [CONF_I2C_ADDRESS cfg]]"
        by (auto simp: setup_UPS_def log_error_def)
      then show ?thesis using evs(2) by (rule undetected)
    next
      case False
      with assms Inr u Inl evs have "r = Inl e" "trace w' = trace w @ evs"
        by (auto simp: setup_UPS_def)
      then show ?thesis using evs(2) by (rule raised)
    qed
  next
    case ups: (Inr ups)
    note i = UPS_init_Inr [OF u [unfolded ups]]
    obtain r2 h w2 where hi: "UPSHandler_init ups w1 = (r2, h, w2)"
      by (cases "UPSHandler_init ups w1")
    show ?thesis
    proof (cases r2)
      case (Inl e)
      from UPSHandler_init_Inl [OF hi [unfolded Inl]] obtain evs where
        evs: "trace w2 = trace w1 @ evs" "list_all is_read evs" by blast
      from assms Inr u ups hi Inl have "r = Inl e" "w' = w2"
        by (auto simp: setup_UPS_def)
      with evs i(1) have "r = Inl e"
        "trace w' = trace w @ ([Read bus (CONF_I2C_ADDRESS cfg) 2,
            Read bus (CONF_I2C_ADDRESS cfg) 4] @ evs)"
        "list_all is_read ([Read bus (CONF_I2C_ADDRESS cfg) 2,
            Read bus (CONF_I2C_ADDRESS cfg) 4] @ evs)"
        by simp_all
      then show ?thesis by (rule raised)
    next
      case (Inr u2)
      note t = UPSHandler_init_Inr [OF hi [unfolded Inr]]
      from assms \<open>SMBus (CONF_I2C_BUS cfg) w = Inr bus\<close> u ups hi Inr t(2)
      have "r = Inr (Some h)" "w' = sleep (1 / 2) w2"
        by (auto simp: setup_UPS_def Let_def)
      with t i bus have "r = Inr (Some h)"
        "trace w' = trace w @ setup_events (CONF_I2C_BUS cfg) (CONF_I2C_ADDRESS cfg)"
        by (simp_all add: sleep_def setup_events_def)
      then show ?thesis using t(2) by (rule ready)
    qed
  qed
qed

text \<open>
  C9: after a read that completes, the voltage field is a tuple of one element and
  therefore truthy, whatever the voltage; so is the voltage that the handler caches in
  its constructor, and \<^verbatim>\<open>_setup_UPS\<close> never reaches the branch guarded by
  \<^verbatim>\<open>not sensor_handler.sensor_data.voltage\<close>, whose mark is the message it logs.
\<close>

theorem stored_voltage_truthy:
  "(get_sensor_data self w = (Inr r, self', w') \<longrightarrow>
       (\<exists>v. FieldData.voltage (data self') = PyTuple [PyFloat v])
       \<and> truthy (FieldData.voltage (data self')))
   \<and> (UPSHandler_init ups w = (Inr u, h, w'') \<longrightarrow> truthy (SensorData.voltage (sensor_data h)))
   \<and> LogError ''UPS sensor failed to Initialize'' []
        \<notin> set (drop (length (trace w)) (trace (snd (setup_UPS cfg w))))"
proof (intro conjI impI)
  assume "get_sensor_data self w = (Inr r, self', w')"
  from get_sensor_data_Inr(7) [OF this]
  show "\<exists>v. FieldData.voltage (data self') = PyTuple [PyFloat v]"
    by auto
next
  assume "get_sensor_data self w = (Inr r, self', w')"
  from get_sensor_data_Inr(7) [OF this]
  show "truthy (FieldData.voltage (data self'))"
    by auto
next
  assume "UPSHandler_init ups w = (Inr u, h, w'')"
  then show "truthy (SensorData.voltage (sensor_data h))"
    unfolding UPSHandler_init_def by (rule update_cases) auto
next
  obtain r w' where s: "setup_UPS cfg w = (r, w')"
    by (cases "setup_UPS cfg w")
  have "LogError ''UPS sensor failed to Initialize'' [] \<notin> set (drop (length (trace w)) (trace w'))"
    using s
  proof (cases rule: setup_UPS_cases)
    case (ready h)
    then show ?thesis by (simp add: setup_events_def)
  next
    case (undetected evs)
    then show ?thesis by (auto simp: list_all_iff)
  next
    case (raised e evs)
    then show ?thesis by (auto simp: list_all_iff)
  qed
  with s show "LogError ''UPS sensor failed to Initialize'' []
        \<notin> set (drop (length (trace w)) (trace (snd (setup_UPS cfg w))))"
    by simp
qed

lemma sample_handler_init:
  assumes "4 \<le> hi"
  shows "fst (UPSHandler_init sample_UPS (sample_world 0 hi v c)) = Inr ()"
  using assms
  by (simp add: UPSHandler_init_def update_def get_sensor_data_unfold sample_world_def
      answering_def sample_UPS_def)

theorem stored_voltage_truthy_witness:
  "(\<exists>r self' w'. get_sensor_data sample_UPS (sample_world 0 6 0 50) = (Inr r, self', w')
      \<and> FieldData.voltage (data self') = PyTuple [PyFloat 0]
      \<and> truthy (FieldData.voltage (data self')))
   \<and> (\<exists>u h w''. UPSHandler_init sample_UPS (sample_world 0 6 0 50) = (Inr u, h, w'')
      \<and> truthy (SensorData.voltage (sensor_data h)))"
proof -
  obtain self' w' where
    g: "get_sensor_data sample_UPS (sample_world 0 6 0 50) = (Inr (PyBool True), self', w')"
    and v: "FieldData.voltage (data self') = PyTuple [PyFloat 0]"
    using sample_read [of 6 0 50] by (simp add: byte_swap_def scale_voltage_0)
  have "fst (UPSHandler_init sample_UPS (sample_world 0 6 0 50)) = Inr ()"
    by (rule sample_handler_init) simp
  then obtain h w'' where
    i: "UPSHandler_init sample_UPS (sample_world 0 6 0 50) = (Inr (), h, w'')"
    by (metis prod.collapse)
  note t = stored_voltage_truthy [where self = sample_UPS and w = "sample_world 0 6 0 50"
      and r = "PyBool True" and self' = self' and w' = w' and ups = sample_UPS and u = "()"
      and h = h and w'' = w'']
  from t g have "truthy (FieldData.voltage (data self'))" by blast
  moreover from t i have "truthy (SensorData.voltage (sensor_data h))" by blast
  ultimately show ?thesis using g v i by blast
qed

section \<open>Atomicity of a poll\<close>

text \<open>
  C3, as stated, fails for the read operation itself: when register 2 answers and
  register 4 does not, \<^verbatim>\<open>get_sensor_data\<close> raises with the voltage field of its
  \<^verbatim>\<open>data\<close> already written and the capacity field as it was.
\<close>

theorem reader_writes_voltage_alone_counterexample:
  "fst (get_sensor_data sample_UPS (sample_world 0 1 4096 50)) = Inl IOError
   \<and> FieldData.voltage (data (fst (snd (get_sensor_data sample_UPS (sample_world 0 1 4096 50)))))
       \<noteq> FieldData.voltage (data sample_UPS)
   \<and> FieldData.capacity (data (fst (snd (get_sensor_data sample_UPS (sample_world 0 1 4096 50)))))
       = FieldData.capacity (data sample_UPS)"
  by (simp add: get_sensor_data_unfold sample_world_def answering_def sample_UPS_def
      FieldData_init_def)

text \<open>
  C3, amended: the Reading that the handler caches is written atomically by
  \<^verbatim>\<open>UPSHandler.update\<close>. Either the poll returns and both cached fields hold the two
  values that the completed read stored, or it raises and the cached Reading is the one
  from before.
\<close>

theorem update_writes_both_or_neither:
  assumes "update first_read self w = (r, self', w')"
  shows "(r = Inr ()
          \<and> SensorData.voltage (sensor_data self') = FieldData.voltage (data (sensor self'))
          \<and> SensorData.capacity (sensor_data self') = FieldData.capacity (data (sensor self'))
          \<and> (\<exists>v c. sensor_data self' = \<lparr>voltage = PyTuple [PyFloat v], capacity = PyFloat c\<rparr>))
       \<or> ((\<exists>e. r = Inl e) \<and> sensor_data self' = sensor_data self)"
  using assms by (rule update_cases) auto

theorem update_writes_both_or_neither_witness:
  "\<exists>self' w'. update False sample_handler (ready_world 9) = (Inr (), self', w')
     \<and> sensor_data self' = \<lparr>voltage = PyTuple [PyFloat (binary64 (1 / 800))], capacity = PyFloat 50\<rparr>"
proof -
  have u: "update False sample_handler (ready_world 9) =
      (Inr (), sample_handler,
       (ready_world 9)\<lparr>trace := setup_events 1 54 @ [Read 1 54 2, Read 1 54 4]\<rparr>)"
    by (rule sample_poll_ok) simp
  from update_writes_both_or_neither [OF u]
  have "\<exists>v c. sensor_data sample_handler = \<lparr>voltage = PyTuple [PyFloat v], capacity = PyFloat c\<rparr>"
    by auto
  then have "sensor_data sample_handler =
      \<lparr>voltage = PyTuple [PyFloat (binary64 (1 / 800))], capacity = PyFloat 50\<rparr>"
    by (auto simp: sample_handler_def sample_reading_def)
  with u show ?thesis by blast
qed

section \<open>Repeated polls\<close>

text \<open>
  C7: when two polls in a row succeed and the two registers answered the second poll as
  they answered the first, the cached Reading after the second is equal to the one after
  the first, whatever was cached before.
\<close>

theorem repeated_polls_identical:
  assumes "update False h w = (Inr (), h1, w1)"
    and "update False h1 w1 = (Inr (), h2, w2)"
    and "hardware w (length (trace w1)) (i2c (sensor h)) (i2c_addr (sensor h)) 2
         = hardware w (length (trace w)) (i2c (sensor h)) (i2c_addr (sensor h)) 2"
    and "hardware w (Suc (length (trace w1))) (i2c (sensor h)) (i2c_addr (sensor h)) 4
         = hardware w (Suc (length (trace w))) (i2c (sensor h)) (i2c_addr (sensor h)) 4"
  shows "sensor_data h2 = sensor_data h1"
  using assms
  by (auto simp: update_def get_sensor_data_unfold split: sum.splits if_splits)

theorem repeated_polls_identical_witness:
  "\<exists>h1 w1 h2 w2. update False sample_handler (ready_world 11) = (Inr (), h1, w1)
     \<and> update False h1 w1 = (Inr (), h2, w2) \<and> sensor_data h2 = sensor_data h1"
proof -
  let ?w1 = "(ready_world 11)\<lparr>trace := setup_events 1 54 @ [Read 1 54 2, Read 1 54 4]\<rparr>"
  let ?w2 = "(ready_world 11)\<lparr>trace := setup_events 1 54 @
      [Read 1 54 2, Read 1 54 4, Read 1 54 2, Read 1 54 4]\<rparr>"
  have u1: "update False sample_handler (ready_world 11) = (Inr (), sample_handler, ?w1)"
    by (rule sample_poll_ok) simp
  have "hardware ?w1 (length (trace ?w1))
          (i2c (sensor sample_handler)) (i2c_addr (sensor sample_handler)) 2 = Inr 4096"
    and "hardware ?w1 (Suc (length (trace ?w1)))
          (i2c (sensor sample_handler)) (i2c_addr (sensor sample_handler)) 4 = Inr 50"
    by (simp_all add: ready_world_def sample_world_def setup_events_def answering_def)
  from update_poll_ok [OF this]
  have u2: "update False sample_handler ?w1 = (Inr (), sample_handler, ?w2)"
    by (simp add: byte_swap_0x1000 byte_swap_0x0032 scale_voltage_16 int_truediv_256_exact
        sample_handler_def sample_reading_def ready_world_def sample_world_def)
  have "sensor_data sample_handler = sensor_data sample_handler"
    by (rule repeated_polls_identical [OF u1 u2])
      (simp_all add: ready_world_def sample_world_def setup_events_def answering_def)
  with u1 u2 show ?thesis by blast
qed

section \<open>The sample platform\<close>

lemma sample_setup:
  assumes "6 \<le> hi"
  shows "setup_UPS sample_config (sample_world 0 hi 4096 50)
           = (Inr (Some sample_handler), ready_world hi)"
proof -
  have "UPS_init 54 (Some 1) (sample_world 0 hi 4096 50) =
      (Inr (sensor sample_handler),
       (sample_world 0 hi 4096 50)\<lparr>trace := [Read 1 54 2, Read 1 54 4]\<rparr>)"
    using assms sample_read [of hi 4096 50]
    by (simp add: UPS_init_def sample_UPS_def sample_handler_def FieldData_init_def
        byte_swap_0x1000 byte_swap_0x0032 scale_voltage_16 int_truediv_256_exact)
  moreover have "UPSHandler_init (sensor sample_handler)
        ((sample_world 0 hi 4096 50)\<lparr>trace := [Read 1 54 2, Read 1 54 4]\<rparr>) =
      (Inr (), sample_handler,
       (sample_world 0 hi 4096 50)\<lparr>trace := [Read 1 54 2, Read 1 54 4, Read 1 54 2,
          Read 1 54 4, Read 1 54 2, Read 1 54 4]\<rparr>)"
    using assms
    by (simp add: UPSHandler_init_def update_def get_sensor_data_unfold sample_world_def
        answering_def sample_handler_def sample_reading_def SensorData_init_def
        byte_swap_0x1000 byte_swap_0x0032 scale_voltage_16 int_truediv_256_exact)
  ultimately show ?thesis
    by (simp add: setup_UPS_def SMBus_def sample_config_def sample_world_def sleep_def
        ready_world_def setup_events_def sample_handler_def sample_reading_def)
qed

lemma sample_entities:
  "make_entities ''UPS Sensor'' [''voltage'', ''capacity''] = Inr [voltage_entity, capacity_entity]"
  by (simp add: SENSOR_TYPES_def UPSSensor_init_def voltage_entity_def capacity_entity_def)

lemma sample_platform:
  assumes "6 \<le> hi"
  shows "async_setup_platform sample_config (sample_world 0 hi 4096 50)
           = (Inr (Some [voltage_entity, capacity_entity]), Some sample_handler, ready_world hi)"
  using sample_setup [OF assms] sample_entities
  by (simp add: async_setup_platform_def sample_config_def)

lemma sample_setup_undetected:
  "fst (setup_UPS sample_config (sample_world 0 0 4096 50)) = Inr None"
  by (simp add: setup_UPS_def SMBus_def UPS_init_def get_sensor_data_unfold caught_def
      sample_config_def sample_world_def answering_def)

section \<open>A poll that fails\<close>

lemma async_update_raises:
  assumes "fst (update False self w) = Inl e"
  shows "fst (async_update s self w) = Inl e"
    and "fst (snd (async_update s self w)) = s"
    and "fst (snd (snd (async_update s self w))) = fst (snd (update False self w))"
  using assms by (auto simp: async_update_def split: prod.splits sum.splits)

text \<open>
  C4, as stated, fails in its last part: no poll catches the exception of a failed bus
  read. After a set-up that succeeded, on hardware that has stopped answering, both
  \<^verbatim>\<open>UPSHandler.update\<close> and \<^verbatim>\<open>UPSSensor.async_update\<close> raise \<^verbatim>\<open>IOError\<close>.
\<close>

theorem failed_poll_raises_counterexample:
  "setup_UPS sample_config (sample_world 0 6 4096 50) = (Inr (Some sample_handler), ready_world 6)
   \<and> fst (update False sample_handler (ready_world 6)) = Inl IOError
   \<and> fst (async_update capacity_entity sample_handler (ready_world 6)) = Inl IOError"
proof -
  have "fst (update False sample_handler (ready_world 6)) = Inl IOError"
    using sample_poll_dead by (intro update_poll_fails(1)) simp
  then show ?thesis
    using sample_setup [of 6] async_update_raises(1) by simp
qed

text \<open>
  C4, amended: in a poll in which a bus read fails, be it the read of register 2 or,
  after that one was answered, the read of register 4, the cached Reading stays as it
  was and so does the state that the entity exposes; the error of the bus is not
  swallowed: \<^verbatim>\<open>update\<close> and \<^verbatim>\<open>async_update\<close> raise it to their caller.
\<close>

theorem failed_poll_keeps_cache_and_raises:
  assumes "hardware w (length (trace w)) (i2c (sensor self)) (i2c_addr (sensor self)) 2 = Inl e
     \<or> (\<exists>v. hardware w (length (trace w)) (i2c (sensor self)) (i2c_addr (sensor self)) 2 = Inr v
          \<and> hardware w (Suc (length (trace w))) (i2c (sensor self)) (i2c_addr (sensor self)) 4 = Inl e)"
  shows "fst (update False self w) = Inl e
     \<and> sensor_data (fst (snd (update False self w))) = sensor_data self
     \<and> fst (async_update s self w) = Inl e
     \<and> state (fst (snd (async_update s self w))) = state s
     \<and> sensor_data (fst (snd (snd (async_update s self w)))) = sensor_data self"
  using update_poll_fails [OF assms] async_update_raises [of self w e s]
  by simp

theorem failed_poll_keeps_cache_and_raises_witness:
  "hardware (ready_world 6) (length (trace (ready_world 6)))
      (i2c (sensor sample_handler)) (i2c_addr (sensor sample_handler)) 2 = Inl IOError
   \<and> fst (async_update capacity_entity sample_handler (ready_world 6)) = Inl IOError
   \<and> state (fst (snd (async_update capacity_entity sample_handler (ready_world 6)))) = PyNone
   \<and> sensor_data (fst (snd (snd (async_update capacity_entity sample_handler (ready_world 6)))))
       = sample_reading"
  using sample_poll_dead
    failed_poll_keeps_cache_and_raises [of "ready_world 6" sample_handler IOError capacity_entity]
  by (simp add: capacity_entity_def sample_handler_def)

section \<open>The order of the set-up\<close>

text \<open>
  C5, as stated, fails in its order: on hardware that answers exactly the first six
  transactions the set-up succeeds, and its trace shows the read of the constructor of
  \<^verbatim>\<open>UPS\<close>, the throwaway read and the first real read, each of two registers, all
  before the delay. Nothing is read after \<^verbatim>\<open>sleep(0.5)\<close>.
\<close>

theorem setup_sleeps_after_reads_counterexample:
  "fst (setup_UPS sample_config (sample_world 0 6 4096 50)) = Inr (Some sample_handler)
   \<and> trace (snd (setup_UPS sample_config (sample_world 0 6 4096 50)))
       = [Read 1 54 2, Read 1 54 4, Read 1 54 2, Read 1 54 4, Read 1 54 2, Read 1 54 4,
          Sleep (1 / 2)]"
  using sample_setup [of 6] by (simp add: ready_world_def setup_events_def)

text \<open>
  C5, amended: a set-up that delivers a handler has performed, in this order, the read
  of the reader's constructor, one throwaway read, the first real read, and only then
  the settle delay of 0.5; a set-up that delivers no handler, because a read failed or
  the device was not detected, registers no sensors, and nothing initialises again.
\<close>

theorem setup_reads_then_settles:
  assumes "setup_UPS cfg w = (r, w')"
  shows "(\<forall>h. r = Inr (Some h) \<longrightarrow>
            trace w' = trace w @ setup_events (CONF_I2C_BUS cfg) (CONF_I2C_ADDRESS cfg))
     \<and> ((\<forall>h. r \<noteq> Inr (Some h)) \<longrightarrow>
            (\<forall>dev. fst (async_setup_platform cfg w) \<noteq> Inr (Some dev)))"
proof (intro conjI allI impI)
  fix h assume "r = Inr (Some h)"
  with assms show "trace w' = trace w @ setup_events (CONF_I2C_BUS cfg) (CONF_I2C_ADDRESS cfg)"
    by (cases rule: setup_UPS_cases) auto
next
  fix dev assume "\<forall>h. r \<noteq> Inr (Some h)"
  with assms show "fst (async_setup_platform cfg w) \<noteq> Inr (Some dev)"
    by (auto simp: async_setup_platform_def split: sum.splits option.splits)
qed

theorem setup_reads_then_settles_witness:
  "trace (snd (setup_UPS sample_config (sample_world 0 6 4096 50)))
     = trace (sample_world 0 6 4096 50) @ setup_events 1 54
   \<and> (\<forall>dev. fst (async_setup_platform sample_config (sample_world 0 0 4096 50))
          \<noteq> Inr (Some dev))"
proof -
  have a: "setup_UPS sample_config (sample_world 0 6 4096 50)
      = (Inr (Some sample_handler), ready_world 6)"
    by (rule sample_setup) simp
  have b: "setup_UPS sample_config (sample_world 0 0 4096 50)
      = (Inr None, snd (setup_UPS sample_config (sample_world 0 0 4096 50)))"
    using sample_setup_undetected by (metis prod.collapse)
  from setup_reads_then_settles [OF a]
  have "trace (ready_world 6) = trace (sample_world 0 6 4096 50) @ setup_events 1 54"
    by (simp add: sample_config_def)
  moreover from setup_reads_then_settles [OF b]
  have "\<forall>dev. fst (async_setup_platform sample_config (sample_world 0 0 4096 50))
          \<noteq> Inr (Some dev)"
    by simp
  ultimately show ?thesis using a by simp
qed

section \<open>The accessors\<close>

text \<open>The capacity accessor rounds the cached float to an int.\<close>

lemma capacity_accessor_rounds:
  assumes "update False client w = (Inr (), c1, w1)"
    and "sensor_type s = ''capacity''"
  shows "\<exists>c. SensorData.capacity (sensor_data c1) = PyFloat c
     \<and> async_update s client w = (Inr (), s\<lparr>state := PyInt (round_half_even c)\<rparr>, c1, w1)"
  using assms(1)
proof (cases rule: update_cases)
  case (raised e)
  then show ?thesis by simp
next
  case (stored v c)
  with assms show ?thesis by (simp add: async_update_def)
qed

lemma sample_capacity_state:
  "state (fst (snd (async_update capacity_entity sample_handler (ready_world 9)))) = PyInt 50"
proof -
  have "update False sample_handler (ready_world 9) =
      (Inr (), sample_handler,
       (ready_world 9)\<lparr>trace := setup_events 1 54 @ [Read 1 54 2, Read 1 54 4]\<rparr>)"
    by (rule sample_poll_ok) simp
  then show ?thesis
    by (simp add: async_update_def capacity_entity_def sample_handler_def sample_reading_def
        round_half_even_def)
qed

text \<open>
  C6: the voltage accessor does not expose the cached voltage rounded to two decimals.
  The entities and the handler are those that the platform set-up delivers for the raw
  words \<open>0x1000\<close> and \<open>0x0032\<close>; the poll succeeds, the cached voltage is the tuple
  \<^verbatim>\<open>(0.00125,)\<close>, \<^verbatim>\<open>round\<close> raises \<^verbatim>\<open>TypeError\<close> on it, and the state of the entity stays
  \<^verbatim>\<open>None\<close>.
\<close>

theorem voltage_accessor_raises_TypeError:
  "async_setup_platform sample_config (sample_world 0 9 4096 50)
     = (Inr (Some [voltage_entity, capacity_entity]), Some sample_handler, ready_world 9)
   \<and> fst (update False sample_handler (ready_world 9)) = Inr ()
   \<and> fst (async_update voltage_entity sample_handler (ready_world 9)) = Inl TypeError
   \<and> state (fst (snd (async_update voltage_entity sample_handler (ready_world 9)))) = PyNone"
proof -
  have "update False sample_handler (ready_world 9) =
      (Inr (), sample_handler,
       (ready_world 9)\<lparr>trace := setup_events 1 54 @ [Read 1 54 2, Read 1 54 4]\<rparr>)"
    by (rule sample_poll_ok) simp
  then show ?thesis
    using sample_platform [of 9]
    by (simp add: async_update_def voltage_entity_def sample_handler_def sample_reading_def)
qed

end
